theory Spec2Isabelle
  imports Complex_Main
begin

section \<open>Housing price prediction service: the serving path\<close>

text \<open>
  The development covers \<^verbatim>\<open>api/schemas.py\<close> (the request schema \<^verbatim>\<open>PropertyData\<close>) and
  \<^verbatim>\<open>api/app.py\<close> (\<^verbatim>\<open>load_models\<close> and \<^verbatim>\<open>predict\<close>). Python floats are written as the
  reals they denote: the service performs no arithmetic on them, it only stores, defaults
  and forwards them, and converts integers to them. The floats that are no numbers
  (\<^verbatim>\<open>inf\<close>, \<^verbatim>\<open>nan\<close>) are not part of the model.
\<close>

subsection \<open>Python values, exceptions, tables\<close>

text \<open>
  What a Python \<^verbatim>\<open>raise\<close> carries, as far as the service looks at it: whether the object
  is an instance of \<^verbatim>\<open>Exception\<close> (then \<^verbatim>\<open>except Exception\<close> catches it) or only of
  \<^verbatim>\<open>BaseException\<close> (\<^verbatim>\<open>KeyboardInterrupt\<close>, \<^verbatim>\<open>SystemExit\<close>, \<^verbatim>\<open>GeneratorExit\<close>), and its
  \<^verbatim>\<open>str()\<close>.
\<close>

datatype raised = Exception string | BaseException string

datatype pyval = VNone | VStr string | VFloat real | VInt int

type_synonym pydict = "(string \<times> pyval) list"

record dataframe =
  columns :: "string list"
  rows :: "pyval list list"

text \<open>
  \<^verbatim>\<open>pd.DataFrame(list_of_dicts)\<close>: one row per dict, the columns are the keys in order of
  first appearance, a key missing from a row's dict leaves an empty cell.
\<close>

definition DataFrame :: "pydict list \<Rightarrow> dataframe" where
  "DataFrame ds =
     (let cols = rev (remdups (rev (concat (map (map fst) ds))))
      in \<lparr>columns = cols,
          rows = map (\<lambda>d. map (\<lambda>c. case map_of d c of Some v \<Rightarrow> v | None \<Rightarrow> VNone) cols) ds\<rparr>)"

subsection \<open>The trained pipeline and the model store\<close>

text \<open>
  A pipeline is an opaque object loaded from a pickle. The service uses one capability,
  \<^verbatim>\<open>model.predict(df)\<close>, which returns a numeric array or raises, and which, being a
  method call on an object, may leave the object in another state: the call returns the
  object as it is afterwards.
\<close>

datatype py_number = PyInt int | PyFloat real

codatatype pipeline =
  Pipeline (predict_method: "dataframe \<Rightarrow> (raised + py_number list) \<times> pipeline")

text \<open>\<^verbatim>\<open>prediction[0]\<close> on the returned array; the message is numpy's.\<close>

definition getitem0 :: "py_number list \<Rightarrow> raised + py_number" where
  "getitem0 prediction =
     (case prediction of
        [] \<Rightarrow> Inl (Exception ''index 0 is out of bounds for axis 0 with size 0'')
      | x # _ \<Rightarrow> Inr x)"

text \<open>
  The conversion of a Python int to a float: exact below \<open>2^53\<close> in magnitude, otherwise
  rounded to 53 significant bits, ties to even; an integer that rounds to \<open>2^1024\<close> or
  more has no double. \<open>bit_length\<close> is \<^verbatim>\<open>int.bit_length()\<close>.
\<close>

function bit_length :: "int \<Rightarrow> nat" where
  "bit_length n = (if n \<le> 0 then 0 else Suc (bit_length (n div 2)))"
  by pat_completeness auto
termination
  by (relation "measure nat") auto

declare bit_length.simps [simp del]

definition int_to_double :: "int \<Rightarrow> real option" where
  "int_to_double n =
     (let m = \<bar>n\<bar> in
      if m < 2 ^ 53 then Some (real_of_int n)
      else
        let shift = bit_length m - 53;
            q = m div 2 ^ shift;
            r = m mod 2 ^ shift;
            half = 2 ^ (shift - 1);
            q' = (if half < r \<or> (r = half \<and> odd q) then q + 1 else q);
            rounded = q' * 2 ^ shift
        in if 2 ^ 1024 \<le> rounded then None
           else Some (real_of_int (sgn n * rounded)))"

text \<open>
  \<^verbatim>\<open>float(x)\<close> on a number: a float is returned as it is, an int is converted, and
  \<^verbatim>\<open>OverflowError\<close> is raised when it has no double.
\<close>

fun float :: "py_number \<Rightarrow> raised + real" where
  "float (PyInt n) =
     (case int_to_double n of
        Some v \<Rightarrow> Inr v
      | None \<Rightarrow> Inl (Exception ''int too large to convert to float''))"
| "float (PyFloat x) = Inr x"

text \<open>
  The module's global state: the dictionary \<^verbatim>\<open>models\<close> (line 10, initially empty) and
  what has been printed.
\<close>

record app_state =
  models :: "string \<rightharpoonup> pipeline"
  stdout :: "string list"

definition initial_state :: app_state where
  "initial_state = \<lparr>models = Map.empty, stdout = []\<rparr>"

subsection \<open>Loading the models at startup\<close>

text \<open>
  The file system as \<^verbatim>\<open>load_models\<close> sees it: \<^verbatim>\<open>os.path.exists\<close> and \<^verbatim>\<open>joblib.load\<close>.
  A file is a pickled pipeline, or something \<^verbatim>\<open>joblib.load\<close> raises on.
\<close>

datatype fs_entry = Pickle pipeline | Unloadable raised

type_synonym filesystem = "string \<rightharpoonup> fs_entry"

definition path_exists :: "filesystem \<Rightarrow> string \<Rightarrow> bool" where
  "path_exists fs path = (fs path \<noteq> None)"

definition joblib_load :: "filesystem \<Rightarrow> string \<Rightarrow> raised + pipeline" where
  "joblib_load fs path =
     (case fs path of
        None \<Rightarrow> Inl (Exception (''[Errno 2] No such file or directory: '' @ path))
      | Some (Pickle m) \<Rightarrow> Inr m
      | Some (Unloadable e) \<Rightarrow> Inl e)"

definition sale_path :: string where
  "sale_path = ''models/model_sale.pkl''"

definition rent_path :: string where
  "rent_path = ''models/model_rent.pkl''"

text \<open>
  \<^verbatim>\<open>load_models\<close>: the result is the exception that left the function, if any, and the
  global state as the function leaves it.
\<close>

definition load_models :: "filesystem \<Rightarrow> app_state \<Rightarrow> raised option \<times> app_state" where
  "load_models fs st =
     (case (if path_exists fs sale_path
            then (case joblib_load fs sale_path of
                    Inl e \<Rightarrow> Inl e
                  | Inr m \<Rightarrow> Inr (st\<lparr>models := (models st)(''sale'' \<mapsto> m),
                                    stdout := stdout st @ [''Sale model loaded.'']\<rparr>))
            else Inr st) of
        Inl e \<Rightarrow> (Some e, st)
      | Inr st1 \<Rightarrow>
          (if path_exists fs rent_path
           then (case joblib_load fs rent_path of
                   Inl e \<Rightarrow> (Some e, st1)
                 | Inr m \<Rightarrow> (None, st1\<lparr>models := (models st1)(''rent'' \<mapsto> m),
                                      stdout := stdout st1 @ [''Rent model loaded.'']\<rparr>))
           else (None, st1)))"

subsection \<open>The request schema\<close>

text \<open>
  The request body is a JSON object. \<^verbatim>\<open>PropertyData\<close> is a pydantic \<^verbatim>\<open>BaseModel\<close> that
  declares 24 fields and no \<^verbatim>\<open>Config\<close>; FastAPI validates the body against it before it
  calls \<^verbatim>\<open>predict\<close>.
\<close>

datatype json =
    JNull
  | JBool bool
  | JInt int
  | JFloat real
  | JStr string
  | JArr "json list"
  | JObj "(string \<times> json) list"

type_synonym payload = "string \<rightharpoonup> json"

datatype verror = Missing | NoneNotAllowed | WrongType | NotFinite

text \<open>
  What pydantic does with a value that is neither null nor of the field's declared type
  (a numeric string for a \<^verbatim>\<open>float\<close>, a boolean for an \<^verbatim>\<open>int\<close>, ...) differs between its
  versions, and the repository pins none: these conversions are a parameter.
\<close>

record coercion =
  str_of :: "json \<Rightarrow> string option"
  float_of :: "json \<Rightarrow> real option"
  int_of :: "json \<Rightarrow> int option"

definition lax :: "(json \<Rightarrow> 'a option) \<Rightarrow> json \<Rightarrow> verror + 'a" where
  "lax conv v = (case conv v of Some x \<Rightarrow> Inr x | None \<Rightarrow> Inl WrongType)"

text \<open>
  A field annotated \<^verbatim>\<open>str\<close>, \<^verbatim>\<open>float\<close>, \<^verbatim>\<open>int\<close>. A JSON integer is a valid float when it
  has a double, and is converted to it; one that has none is refused (as a validation
  error or as the \<^verbatim>\<open>OverflowError\<close> of the conversion, by the library's version: no model
  object is built either way).
\<close>

definition validate_str :: "coercion \<Rightarrow> json \<Rightarrow> verror + string" where
  "validate_str c v =
     (case v of JStr s \<Rightarrow> Inr s | JNull \<Rightarrow> Inl NoneNotAllowed | _ \<Rightarrow> lax (str_of c) v)"

definition validate_float :: "coercion \<Rightarrow> json \<Rightarrow> verror + real" where
  "validate_float c v =
     (case v of
        JFloat x \<Rightarrow> Inr x
      | JInt n \<Rightarrow> (case int_to_double n of Some x \<Rightarrow> Inr x | None \<Rightarrow> Inl NotFinite)
      | JNull \<Rightarrow> Inl NoneNotAllowed
      | _ \<Rightarrow> lax (float_of c) v)"

definition validate_int :: "coercion \<Rightarrow> json \<Rightarrow> verror + int" where
  "validate_int c v =
     (case v of JInt n \<Rightarrow> Inr n | JNull \<Rightarrow> Inl NoneNotAllowed | _ \<Rightarrow> lax (int_of c) v)"

text \<open>\<^verbatim>\<open>Optional[T]\<close>: null is a valid value and stays \<^verbatim>\<open>None\<close>.\<close>

definition validate_optional :: "(json \<Rightarrow> verror + 'a) \<Rightarrow> json \<Rightarrow> verror + 'a option" where
  "validate_optional val v =
     (case v of JNull \<Rightarrow> Inr None
      | _ \<Rightarrow> (case val v of Inl e \<Rightarrow> Inl e | Inr x \<Rightarrow> Inr (Some x)))"

text \<open>
  A field without a default is required; a field with a default takes it when the key is
  absent (the default itself is not validated).
\<close>

definition required :: "payload \<Rightarrow> string \<Rightarrow> (json \<Rightarrow> verror + 'a) \<Rightarrow> verror + 'a" where
  "required p k val = (case p k of None \<Rightarrow> Inl Missing | Some v \<Rightarrow> val v)"

definition with_default :: "payload \<Rightarrow> string \<Rightarrow> (json \<Rightarrow> verror + 'a) \<Rightarrow> 'a \<Rightarrow> verror + 'a" where
  "with_default p k val d = (case p k of None \<Rightarrow> Inr d | Some v \<Rightarrow> val v)"

definition errors_of :: "string \<Rightarrow> verror + 'a \<Rightarrow> (string \<times> verror) list" where
  "errors_of k r = (case r of Inl e \<Rightarrow> [(k, e)] | Inr _ \<Rightarrow> [])"

record PropertyData =
  city :: string
  type :: string
  squareMeters :: real
  rooms :: real
  floor' :: "real option"
  floorCount :: "real option"
  buildYear :: "real option"
  centreDistance :: real
  poiCount :: real
  schoolDistance :: real
  clinicDistance :: real
  postOfficeDistance :: real
  kindergartenDistance :: real
  restaurantDistance :: real
  collegeDistance :: real
  pharmacyDistance :: real
  ownership :: string
  buildingMaterial :: "string option"
  condition :: "string option"
  hasParkingSpace :: int
  hasBalcony :: int
  hasElevator :: int
  hasSecurity :: int
  hasStorageRoom :: int

text \<open>The declared field names, in declaration order.\<close>

definition field_names :: "string list" where
  "field_names =
     [''city'', ''type'', ''squareMeters'', ''rooms'', ''floor'', ''floorCount'', ''buildYear'',
      ''centreDistance'', ''poiCount'', ''schoolDistance'', ''clinicDistance'',
      ''postOfficeDistance'', ''kindergartenDistance'', ''restaurantDistance'',
      ''collegeDistance'', ''pharmacyDistance'', ''ownership'', ''buildingMaterial'',
      ''condition'', ''hasParkingSpace'', ''hasBalcony'', ''hasElevator'', ''hasSecurity'',
      ''hasStorageRoom'']"

text \<open>
  Validation of a body against \<^verbatim>\<open>PropertyData\<close>: every declared field is validated on its
  own, the errors of all fields are collected, and the model object is built when there
  are none. Keys of the body that the class does not declare are not looked at
  (pydantic's default for a model without \<^verbatim>\<open>Config\<close>).
\<close>

definition PropertyData_validate ::
  "coercion \<Rightarrow> payload \<Rightarrow> (string \<times> verror) list + PropertyData" where
  "PropertyData_validate c p =
     (let v_city = required p ''city'' (validate_str c);
          v_type = required p ''type'' (validate_str c);
          v_squareMeters = required p ''squareMeters'' (validate_float c);
          v_rooms = required p ''rooms'' (validate_float c);
          v_floor = with_default p ''floor'' (validate_optional (validate_float c)) (Some 1);
          v_floorCount =
            with_default p ''floorCount'' (validate_optional (validate_float c)) (Some 1);
          v_buildYear =
            with_default p ''buildYear'' (validate_optional (validate_float c)) (Some 1980);
          v_centreDistance = required p ''centreDistance'' (validate_float c);
          v_poiCount = required p ''poiCount'' (validate_float c);
          v_schoolDistance = required p ''schoolDistance'' (validate_float c);
          v_clinicDistance = required p ''clinicDistance'' (validate_float c);
          v_postOfficeDistance = required p ''postOfficeDistance'' (validate_float c);
          v_kindergartenDistance = required p ''kindergartenDistance'' (validate_float c);
          v_restaurantDistance = required p ''restaurantDistance'' (validate_float c);
          v_collegeDistance = required p ''collegeDistance'' (validate_float c);
          v_pharmacyDistance = required p ''pharmacyDistance'' (validate_float c);
          v_ownership = required p ''ownership'' (validate_str c);
          v_buildingMaterial =
            with_default p ''buildingMaterial'' (validate_optional (validate_str c))
              (Some ''brick'');
          v_condition =
            with_default p ''condition'' (validate_optional (validate_str c)) (Some ''unknown'');
          v_hasParkingSpace = with_default p ''hasParkingSpace'' (validate_int c) 0;
          v_hasBalcony = with_default p ''hasBalcony'' (validate_int c) 0;
          v_hasElevator = with_default p ''hasElevator'' (validate_int c) 0;
          v_hasSecurity = with_default p ''hasSecurity'' (validate_int c) 0;
          v_hasStorageRoom = with_default p ''hasStorageRoom'' (validate_int c) 0;
          errors =
            errors_of ''city'' v_city @ errors_of ''type'' v_type
            @ errors_of ''squareMeters'' v_squareMeters @ errors_of ''rooms'' v_rooms
            @ errors_of ''floor'' v_floor @ errors_of ''floorCount'' v_floorCount
            @ errors_of ''buildYear'' v_buildYear
            @ errors_of ''centreDistance'' v_centreDistance
            @ errors_of ''poiCount'' v_poiCount
            @ errors_of ''schoolDistance'' v_schoolDistance
            @ errors_of ''clinicDistance'' v_clinicDistance
            @ errors_of ''postOfficeDistance'' v_postOfficeDistance
            @ errors_of ''kindergartenDistance'' v_kindergartenDistance
            @ errors_of ''restaurantDistance'' v_restaurantDistance
            @ errors_of ''collegeDistance'' v_collegeDistance
            @ errors_of ''pharmacyDistance'' v_pharmacyDistance
            @ errors_of ''ownership'' v_ownership
            @ errors_of ''buildingMaterial'' v_buildingMaterial
            @ errors_of ''condition'' v_condition
            @ errors_of ''hasParkingSpace'' v_hasParkingSpace
            @ errors_of ''hasBalcony'' v_hasBalcony
            @ errors_of ''hasElevator'' v_hasElevator
            @ errors_of ''hasSecurity'' v_hasSecurity
            @ errors_of ''hasStorageRoom'' v_hasStorageRoom
      in if errors \<noteq> [] then Inl errors
         else Inr \<lparr>city = projr v_city,
                   type = projr v_type,
                   squareMeters = projr v_squareMeters,
                   rooms = projr v_rooms,
                   floor' = projr v_floor,
                   floorCount = projr v_floorCount,
                   buildYear = projr v_buildYear,
                   centreDistance = projr v_centreDistance,
                   poiCount = projr v_poiCount,
                   schoolDistance = projr v_schoolDistance,
                   clinicDistance = projr v_clinicDistance,
                   postOfficeDistance = projr v_postOfficeDistance,
                   kindergartenDistance = projr v_kindergartenDistance,
                   restaurantDistance = projr v_restaurantDistance,
                   collegeDistance = projr v_collegeDistance,
                   pharmacyDistance = projr v_pharmacyDistance,
                   ownership = projr v_ownership,
                   buildingMaterial = projr v_buildingMaterial,
                   condition = projr v_condition,
                   hasParkingSpace = projr v_hasParkingSpace,
                   hasBalcony = projr v_hasBalcony,
                   hasElevator = projr v_hasElevator,
                   hasSecurity = projr v_hasSecurity,
                   hasStorageRoom = projr v_hasStorageRoom\<rparr>)"

text \<open>\<^verbatim>\<open>data.dict()\<close>: the fields in declaration order, \<^verbatim>\<open>None\<close> for a null field.\<close>

definition opt_float :: "real option \<Rightarrow> pyval" where
  "opt_float x = (case x of None \<Rightarrow> VNone | Some y \<Rightarrow> VFloat y)"

definition opt_str :: "string option \<Rightarrow> pyval" where
  "opt_str x = (case x of None \<Rightarrow> VNone | Some y \<Rightarrow> VStr y)"

definition dict :: "PropertyData \<Rightarrow> pydict" where
  "dict d =
     [(''city'', VStr (city d)),
      (''type'', VStr (type d)),
      (''squareMeters'', VFloat (squareMeters d)),
      (''rooms'', VFloat (rooms d)),
      (''floor'', opt_float (floor' d)),
      (''floorCount'', opt_float (floorCount d)),
      (''buildYear'', opt_float (buildYear d)),
      (''centreDistance'', VFloat (centreDistance d)),
      (''poiCount'', VFloat (poiCount d)),
      (''schoolDistance'', VFloat (schoolDistance d)),
      (''clinicDistance'', VFloat (clinicDistance d)),
      (''postOfficeDistance'', VFloat (postOfficeDistance d)),
      (''kindergartenDistance'', VFloat (kindergartenDistance d)),
      (''restaurantDistance'', VFloat (restaurantDistance d)),
      (''collegeDistance'', VFloat (collegeDistance d)),
      (''pharmacyDistance'', VFloat (pharmacyDistance d)),
      (''ownership'', VStr (ownership d)),
      (''buildingMaterial'', opt_str (buildingMaterial d)),
      (''condition'', opt_str (condition d)),
      (''hasParkingSpace'', VInt (hasParkingSpace d)),
      (''hasBalcony'', VInt (hasBalcony d)),
      (''hasElevator'', VInt (hasElevator d)),
      (''hasSecurity'', VInt (hasSecurity d)),
      (''hasStorageRoom'', VInt (hasStorageRoom d))]"

subsection \<open>The prediction endpoint\<close>

text \<open>
  How a call of \<^verbatim>\<open>predict\<close> ends: it returns the response dictionary, it raises
  \<^verbatim>\<open>HTTPException(status_code, detail)\<close>, or something raised inside passes through
  uncaught.
\<close>

datatype outcome = Return pydict | HTTPException int string | Uncaught raised

text \<open>
  \<^verbatim>\<open>predict(mode, data)\<close>, lines 32 to 56. The \<^verbatim>\<open>try\<close> block holds the lookup, the call of
  the pipeline, \<^verbatim>\<open>prediction[0]\<close>, \<^verbatim>\<open>float\<close> and the response; its handler is
  \<^verbatim>\<open>except Exception\<close>. The state the call leaves behind has the pipeline as the
  invocation left it.
\<close>

definition predict :: "app_state \<Rightarrow> string \<Rightarrow> PropertyData \<Rightarrow> outcome \<times> app_state" where
  "predict st mode data =
     (if mode \<notin> set [''sale'', ''rent'']
      then (HTTPException 400 (''Mode must be 'sale' or 'rent'' @ [CHR 0x27]), st)
      else case models st mode of
        None \<Rightarrow> (HTTPException 500 (''Model for '' @ mode @ '' not loaded''), st)
      | Some model \<Rightarrow>
          (let input_data = dict data;
               df = DataFrame [input_data];
               (result, model') = predict_method model df;
               st' = st\<lparr>models := (models st)(mode \<mapsto> model')\<rparr>
           in case (case result of
                      Inl e \<Rightarrow> Inl e
                    | Inr prediction \<Rightarrow>
                        (case getitem0 prediction of
                           Inl e \<Rightarrow> Inl e
                         | Inr x \<Rightarrow>
                             (case float x of
                                Inl e \<Rightarrow> Inl e
                              | Inr y \<Rightarrow>
                                  Inr [(''mode'', VStr mode), (''predicted_price'', VFloat y)]))) of
                Inr response \<Rightarrow> (Return response, st')
              | Inl (Exception msg) \<Rightarrow> (HTTPException 500 msg, st')
              | Inl (BaseException msg) \<Rightarrow> (Uncaught (BaseException msg), st')))"

subsection \<open>Well-typed bodies\<close>

text \<open>
  The primitive type each declared field asks for, read off the annotations of
  \<^verbatim>\<open>PropertyData\<close>: a JSON string for \<^verbatim>\<open>str\<close>, a JSON number that has a double for
  \<^verbatim>\<open>float\<close>, a JSON integer for \<^verbatim>\<open>int\<close>, and null as well for an \<^verbatim>\<open>Optional\<close> field.
\<close>

fun is_str :: "json \<Rightarrow> bool" where
  "is_str (JStr s) = True"
| "is_str _ = False"

fun is_number :: "json \<Rightarrow> bool" where
  "is_number (JInt n) = (int_to_double n \<noteq> None)"
| "is_number (JFloat x) = True"
| "is_number _ = False"

fun is_int :: "json \<Rightarrow> bool" where
  "is_int (JInt n) = True"
| "is_int _ = False"

fun is_null :: "json \<Rightarrow> bool" where
  "is_null JNull = True"
| "is_null _ = False"

definition required_str_fields :: "string list" where
  "required_str_fields = [''city'', ''type'', ''ownership'']"

definition required_float_fields :: "string list" where
  "required_float_fields =
     [''squareMeters'', ''rooms'', ''centreDistance'', ''poiCount'', ''schoolDistance'',
      ''clinicDistance'', ''postOfficeDistance'', ''kindergartenDistance'',
      ''restaurantDistance'', ''collegeDistance'', ''pharmacyDistance'']"

definition optional_float_fields :: "string list" where
  "optional_float_fields = [''floor'', ''floorCount'', ''buildYear'']"

definition optional_str_fields :: "string list" where
  "optional_str_fields = [''buildingMaterial'', ''condition'']"

definition flag_fields :: "string list" where
  "flag_fields =
     [''hasParkingSpace'', ''hasBalcony'', ''hasElevator'', ''hasSecurity'', ''hasStorageRoom'']"

definition supplied :: "payload \<Rightarrow> (json \<Rightarrow> bool) \<Rightarrow> string \<Rightarrow> bool" where
  "supplied p P k = (case p k of None \<Rightarrow> False | Some v \<Rightarrow> P v)"

definition omitted_or :: "payload \<Rightarrow> (json \<Rightarrow> bool) \<Rightarrow> string \<Rightarrow> bool" where
  "omitted_or p P k = (case p k of None \<Rightarrow> True | Some v \<Rightarrow> P v)"

definition required_well_typed :: "payload \<Rightarrow> bool" where
  "required_well_typed p =
     (list_all (supplied p is_str) required_str_fields
      \<and> list_all (supplied p is_number) required_float_fields)"

definition omits_optional :: "payload \<Rightarrow> bool" where
  "omits_optional p =
     list_all (\<lambda>k. p k = None) (optional_float_fields @ optional_str_fields @ flag_fields)"

definition well_typed :: "payload \<Rightarrow> bool" where
  "well_typed p =
     (required_well_typed p
      \<and> list_all (omitted_or p (\<lambda>v. is_null v \<or> is_number v)) optional_float_fields
      \<and> list_all (omitted_or p (\<lambda>v. is_null v \<or> is_str v)) optional_str_fields
      \<and> list_all (omitted_or p is_int) flag_fields)"

text \<open>A pipeline that no invocation changes, and a model store that holds only such.\<close>

definition immutable :: "pipeline \<Rightarrow> bool" where
  "immutable m = (\<forall>df. snd (predict_method m df) = m)"

definition immutable_store :: "app_state \<Rightarrow> bool" where
  "immutable_store st = (\<forall>mode m. models st mode = Some m \<longrightarrow> immutable m)"

subsection \<open>Example inputs\<close>

text \<open>
  Three pipelines: one that answers every table with the same float, one that answers
  with the same int, one whose \<^verbatim>\<open>predict\<close> raises; model stores built from them and a
  models directory that holds the rent artifact only.
\<close>

primcorec const_pipeline :: "real \<Rightarrow> pipeline" where
  "const_pipeline v = Pipeline (\<lambda>df. (Inr [PyFloat v], const_pipeline v))"

primcorec int_pipeline :: "int \<Rightarrow> pipeline" where
  "int_pipeline n = Pipeline (\<lambda>df. (Inr [PyInt n], int_pipeline n))"

primcorec failing_pipeline :: "string \<Rightarrow> pipeline" where
  "failing_pipeline msg = Pipeline (\<lambda>df. (Inl (Exception msg), failing_pipeline msg))"

definition sale_only_state :: app_state where
  "sale_only_state =
     \<lparr>models = [''sale'' \<mapsto> const_pipeline 650000], stdout = [''Sale model loaded.'']\<rparr>"

definition full_state :: app_state where
  "full_state =
     \<lparr>models = [''sale'' \<mapsto> const_pipeline 650000,
                ''rent'' \<mapsto> failing_pipeline ''Input X contains NaN.''],
      stdout = [''Sale model loaded.'', ''Rent model loaded.'']\<rparr>"

definition int_rent_state :: app_state where
  "int_rent_state =
     \<lparr>models = [''rent'' \<mapsto> int_pipeline 2500], stdout = [''Rent model loaded.'']\<rparr>"

definition huge :: int where
  "huge = 2 ^ 1024"

definition huge_rent_state :: app_state where
  "huge_rent_state =
     \<lparr>models = [''rent'' \<mapsto> int_pipeline huge], stdout = [''Rent model loaded.'']\<rparr>"

definition rent_only_fs :: filesystem where
  "rent_only_fs = [rent_path \<mapsto> Pickle (const_pipeline 2500)]"

text \<open>
  The record of the specification's end-to-end example, as a request body and as the
  validated model object, and three variations of the body. \<open>no_coercion\<close> is the
  strictest library: it converts nothing.
\<close>

definition no_coercion :: coercion where
  "no_coercion = \<lparr>str_of = (\<lambda>v. None), float_of = (\<lambda>v. None), int_of = (\<lambda>v. None)\<rparr>"

definition example_payload :: payload where
  "example_payload =
     map_of
       [(''city'', JStr ''warszawa''), (''type'', JStr ''blockOfFlats''),
        (''squareMeters'', JFloat 50), (''rooms'', JFloat 2), (''centreDistance'', JFloat 2),
        (''poiCount'', JFloat 10), (''schoolDistance'', JFloat 0.5),
        (''clinicDistance'', JFloat 1), (''postOfficeDistance'', JFloat 0.5),
        (''kindergartenDistance'', JFloat 0.5), (''restaurantDistance'', JFloat 0.5),
        (''collegeDistance'', JFloat 2), (''pharmacyDistance'', JFloat 0.5),
        (''ownership'', JStr ''condominium'')]"

definition example_record :: PropertyData where
  "example_record =
     \<lparr>city = ''warszawa'', type = ''blockOfFlats'', squareMeters = 50, rooms = 2,
      floor' = Some 1, floorCount = Some 1, buildYear = Some 1980, centreDistance = 2,
      poiCount = 10, schoolDistance = 0.5, clinicDistance = 1, postOfficeDistance = 0.5,
      kindergartenDistance = 0.5, restaurantDistance = 0.5, collegeDistance = 2,
      pharmacyDistance = 0.5, ownership = ''condominium'', buildingMaterial = Some ''brick'',
      condition = Some ''unknown'', hasParkingSpace = 0, hasBalcony = 0, hasElevator = 0,
      hasSecurity = 0, hasStorageRoom = 0\<rparr>"




definition unchecked_payload :: payload where
  "unchecked_payload = example_payload(''floor'' \<mapsto> JNull, ''hasParkingSpace'' \<mapsto> JInt 7)"

definition unchecked_record :: PropertyData where
  "unchecked_record = example_record\<lparr>floor' := None, hasParkingSpace := 7\<rparr>"

definition extra_payload :: payload where
  "extra_payload = example_payload(''swimmingPool'' \<mapsto> JBool True)"

section \<open>Properties\<close>

subsection \<open>Auxiliary facts\<close>

lemma int_to_double_exact: "\<bar>n\<bar> < 2 ^ 53 \<Longrightarrow> int_to_double n = Some (real_of_int n)"
  by (simp add: int_to_double_def Let_def)

lemma int_to_double_rounds_down: "int_to_double (2 ^ 53 + 1) = Some (2 ^ 53)"
  by code_simp

lemma int_to_double_rounds_up: "int_to_double (- (2 ^ 53 + 3)) = Some (- (2 ^ 53 + 4))"
  by code_simp

lemma bit_length_gt: "2 ^ k \<le> m \<Longrightarrow> k < bit_length m"
proof (induction k arbitrary: m)
  case 0
  then show ?case by (subst bit_length.simps) simp
next
  case (Suc k)
  then have "2 ^ k \<le> m div 2" by simp
  then have "k < bit_length (m div 2)" by (rule Suc.IH)
  moreover have "(0::int) < 2 ^ Suc k" by simp
  with Suc.prems have "0 < m" by linarith
  ultimately show ?case by (subst bit_length.simps) simp
qed

lemma bit_length_lower: "0 < m \<Longrightarrow> 2 ^ (bit_length m - 1) \<le> m"
proof (induction m rule: bit_length.induct)
  case (1 n)
  show ?case
  proof (cases "n div 2 = 0")
    case True
    with 1(2) have "bit_length n = 1"
      by (subst bit_length.simps) (simp add: bit_length.simps[of 0])
    with 1(2) show ?thesis by simp
  next
    case False
    with 1(2) have pos: "0 < n div 2" by simp
    with 1 have ih: "2 ^ (bit_length (n div 2) - 1) \<le> n div 2" by simp
    from pos have "0 < bit_length (n div 2)" by (subst bit_length.simps) simp
    then have "bit_length n - 1 = Suc (bit_length (n div 2) - 1)"
      using 1(2) by (subst bit_length.simps) simp
    with ih show ?thesis by simp
  qed
qed

lemma int_to_double_too_large:
  assumes "2 ^ 1024 \<le> \<bar>n\<bar>"
  shows "int_to_double n = None"
proof -
  define m where "m = \<bar>n\<bar>"
  define s where "s = bit_length m - 53"
  define t where "t = (2::int) ^ s"
  define c where "c = (2::int) ^ 52"
  define L where "L = (2::int) ^ 1024"
  from assms have big: "L \<le> m" by (simp add: m_def L_def)
  then have bl: "1024 < bit_length m" unfolding L_def by (rule bit_length_gt)
  have Lpos: "0 < L" by (simp add: L_def)
  with big have pos: "0 < m" by linarith
  have low: "2 ^ (bit_length m - 1) \<le> m" using pos by (rule bit_length_lower)
  have split: "bit_length m - 1 = 52 + s" using bl by (simp add: s_def)
  have tpos: "0 < t" by (simp add: t_def)
  have ct: "(2::int) ^ (52 + s) = c * t" by (simp only: power_add c_def t_def)
  from low have a: "c * t \<le> m" by (simp only: split ct)
  have "(c * t) div t \<le> m div t" using a tpos by (rule zdiv_mono1)
  moreover have "(c * t) div t = c" using tpos by simp
  ultimately have qd: "c \<le> m div t" by simp
  have q: "c * t \<le> m div t * t" using qd tpos by (simp add: mult_right_mono)
  have "(2::int) ^ 1024 \<le> 2 ^ (52 + s)"
    using bl by (intro power_increasing) (simp_all add: s_def)
  then have "L \<le> c * t" by (simp only: ct L_def)
  with q have r0: "L \<le> m div t * t" by linarith
  have "m div t * t \<le> (m div t + 1) * t" using tpos by (simp add: distrib_right)
  with r0 have r1: "L \<le> (m div t + 1) * t" by linarith
  have "(2::int) ^ 53 \<le> 2 ^ 1024" by (intro power_increasing) simp_all
  with big have nb: "\<not> m < 2 ^ 53" by (simp add: L_def)
  show ?thesis
    using nb r0 r1 unfolding int_to_double_def Let_def m_def t_def s_def L_def
    by simp
qed

lemma int_to_double_overflow: "int_to_double huge = None"
  by (rule int_to_double_too_large) (simp add: huge_def)

lemma validate_float_too_large:
  assumes "2 ^ 1024 \<le> \<bar>n\<bar>"
  shows "validate_float c (JInt n) = Inl NotFinite" and "\<not> is_number (JInt n)"
  using int_to_double_too_large[OF assms] by (simp_all add: validate_float_def)

lemma dist_fn: "distinct field_names"
  by (simp add: field_names_def)

lemma dict_keys: "map fst (dict d) = field_names"
  by (simp add: dict_def field_names_def)

lemma DataFrame_single:
  assumes "distinct (map fst d)"
  shows "DataFrame [d] = \<lparr>columns = map fst d, rows = [map snd d]\<rparr>"
proof -
  have c: "rev (remdups (rev (map fst d))) = map fst d"
    using assms by (simp add: distinct_remdups_id)
  have "map (\<lambda>c. case map_of d c of Some v \<Rightarrow> v | None \<Rightarrow> VNone) (map fst d) = map snd d"
    using assms
    by (auto simp add: map_of_eq_Some_iff[OF assms] intro!: map_cong[OF refl] )
  with c show ?thesis by (simp add: DataFrame_def)
qed

lemma predict_state:
  assumes "mode \<in> {''sale'', ''rent''}" "models st mode = Some model"
  shows "snd (predict st mode data) =
           st\<lparr>models := (models st)(mode \<mapsto> snd (predict_method model (DataFrame [dict data])))\<rparr>"
  using assms
  by (auto simp add: predict_def Let_def split: prod.splits sum.splits raised.splits)

lemma predict_state_unloaded:
  assumes "mode \<notin> {''sale'', ''rent''} \<or> models st mode = None"
  shows "snd (predict st mode data) = st"
  using assms by (auto simp add: predict_def)

lemma errors_of_Nil: "errors_of k v = [] \<longleftrightarrow> \<not> isl v"
  by (cases v) (simp_all add: errors_of_def)

lemma validate_accepts_iff:
  "(\<exists>r. PropertyData_validate c p = Inr r) \<longleftrightarrow>
     (\<not> isl (required p ''city'' (validate_str c))
      \<and> \<not> isl (required p ''type'' (validate_str c))
      \<and> \<not> isl (required p ''squareMeters'' (validate_float c))
      \<and> \<not> isl (required p ''rooms'' (validate_float c))
      \<and> \<not> isl (with_default p ''floor'' (validate_optional (validate_float c)) (Some 1))
      \<and> \<not> isl (with_default p ''floorCount'' (validate_optional (validate_float c)) (Some 1))
      \<and> \<not> isl (with_default p ''buildYear'' (validate_optional (validate_float c)) (Some 1980))
      \<and> \<not> isl (required p ''centreDistance'' (validate_float c))
      \<and> \<not> isl (required p ''poiCount'' (validate_float c))
      \<and> \<not> isl (required p ''schoolDistance'' (validate_float c))
      \<and> \<not> isl (required p ''clinicDistance'' (validate_float c))
      \<and> \<not> isl (required p ''postOfficeDistance'' (validate_float c))
      \<and> \<not> isl (required p ''kindergartenDistance'' (validate_float c))
      \<and> \<not> isl (required p ''restaurantDistance'' (validate_float c))
      \<and> \<not> isl (required p ''collegeDistance'' (validate_float c))
      \<and> \<not> isl (required p ''pharmacyDistance'' (validate_float c))
      \<and> \<not> isl (required p ''ownership'' (validate_str c))
      \<and> \<not> isl (with_default p ''buildingMaterial'' (validate_optional (validate_str c)) (Some ''brick''))
      \<and> \<not> isl (with_default p ''condition'' (validate_optional (validate_str c)) (Some ''unknown''))
      \<and> \<not> isl (with_default p ''hasParkingSpace'' (validate_int c) 0)
      \<and> \<not> isl (with_default p ''hasBalcony'' (validate_int c) 0)
      \<and> \<not> isl (with_default p ''hasElevator'' (validate_int c) 0)
      \<and> \<not> isl (with_default p ''hasSecurity'' (validate_int c) 0)
      \<and> \<not> isl (with_default p ''hasStorageRoom'' (validate_int c) 0))"
  unfolding PropertyData_validate_def Let_def
  by (simp add: errors_of_Nil)


lemma required_str_ok: "supplied p is_str k \<Longrightarrow> \<not> isl (required p k (validate_str c))"
  by (cases "p k"; cases "the (p k)") (simp_all add: supplied_def required_def validate_str_def)

lemma required_float_ok: "supplied p is_number k \<Longrightarrow> \<not> isl (required p k (validate_float c))"
  by (cases "p k"; cases "the (p k)") (auto simp add: supplied_def required_def validate_float_def)

lemma optional_float_ok:
  "omitted_or p (\<lambda>v. is_null v \<or> is_number v) k \<Longrightarrow>
     \<not> isl (with_default p k (validate_optional (validate_float c)) d)"
  by (cases "p k"; cases "the (p k)")
     (auto simp add: omitted_or_def with_default_def validate_optional_def validate_float_def)

lemma optional_str_ok:
  "omitted_or p (\<lambda>v. is_null v \<or> is_str v) k \<Longrightarrow>
     \<not> isl (with_default p k (validate_optional (validate_str c)) d)"
  by (cases "p k"; cases "the (p k)")
     (simp_all add: omitted_or_def with_default_def validate_optional_def validate_str_def)

lemma flag_ok: "omitted_or p is_int k \<Longrightarrow> \<not> isl (with_default p k (validate_int c) d)"
  by (cases "p k"; cases "the (p k)")
     (simp_all add: omitted_or_def with_default_def validate_int_def)

lemma omitted_default: "p k = None \<Longrightarrow> with_default p k val d = Inr d"
  by (simp add: with_default_def)

lemma well_typed_accepted:
  assumes "well_typed p"
  shows "\<exists>r. PropertyData_validate c p = Inr r"
  using assms
  unfolding validate_accepts_iff well_typed_def required_well_typed_def required_str_fields_def
    required_float_fields_def optional_float_fields_def optional_str_fields_def flag_fields_def
  by (simp add: required_str_ok required_float_ok optional_float_ok optional_str_ok flag_ok)

lemma not_isl_projr: "\<not> isl v \<Longrightarrow> v = Inr x \<longleftrightarrow> projr v = x"
  by (cases v) auto

lemma validate_Inr_record:
  assumes "PropertyData_validate c p = Inr r"
  shows "r = \<lparr>city = projr (required p ''city'' (validate_str c)),
                   type = projr (required p ''type'' (validate_str c)),
                   squareMeters = projr (required p ''squareMeters'' (validate_float c)),
                   rooms = projr (required p ''rooms'' (validate_float c)),
                   floor' = projr (with_default p ''floor'' (validate_optional (validate_float c)) (Some 1)),
                   floorCount = projr (with_default p ''floorCount'' (validate_optional (validate_float c)) (Some 1)),
                   buildYear = projr (with_default p ''buildYear'' (validate_optional (validate_float c)) (Some 1980)),
                   centreDistance = projr (required p ''centreDistance'' (validate_float c)),
                   poiCount = projr (required p ''poiCount'' (validate_float c)),
                   schoolDistance = projr (required p ''schoolDistance'' (validate_float c)),
                   clinicDistance = projr (required p ''clinicDistance'' (validate_float c)),
                   postOfficeDistance = projr (required p ''postOfficeDistance'' (validate_float c)),
                   kindergartenDistance = projr (required p ''kindergartenDistance'' (validate_float c)),
                   restaurantDistance = projr (required p ''restaurantDistance'' (validate_float c)),
                   collegeDistance = projr (required p ''collegeDistance'' (validate_float c)),
                   pharmacyDistance = projr (required p ''pharmacyDistance'' (validate_float c)),
                   ownership = projr (required p ''ownership'' (validate_str c)),
                   buildingMaterial = projr (with_default p ''buildingMaterial'' (validate_optional (validate_str c)) (Some ''brick'')),
                   condition = projr (with_default p ''condition'' (validate_optional (validate_str c)) (Some ''unknown'')),
                   hasParkingSpace = projr (with_default p ''hasParkingSpace'' (validate_int c) 0),
                   hasBalcony = projr (with_default p ''hasBalcony'' (validate_int c) 0),
                   hasElevator = projr (with_default p ''hasElevator'' (validate_int c) 0),
                   hasSecurity = projr (with_default p ''hasSecurity'' (validate_int c) 0),
                   hasStorageRoom = projr (with_default p ''hasStorageRoom'' (validate_int c) 0)\<rparr>"
proof -
  from assms have "\<exists>r. PropertyData_validate c p = Inr r" by blast
  note ok = this[unfolded validate_accepts_iff]
  from assms ok show ?thesis
    unfolding PropertyData_validate_def Let_def
    by (simp add: errors_of_Nil)
qed

lemma validate_fields:
  assumes "PropertyData_validate c p = Inr r"
  shows "required p ''city'' (validate_str c) = Inr (city r)"
    and "required p ''type'' (validate_str c) = Inr (type r)"
    and "required p ''squareMeters'' (validate_float c) = Inr (squareMeters r)"
    and "required p ''rooms'' (validate_float c) = Inr (rooms r)"
    and "with_default p ''floor'' (validate_optional (validate_float c)) (Some 1) = Inr (floor' r)"
    and "with_default p ''floorCount'' (validate_optional (validate_float c)) (Some 1)
           = Inr (floorCount r)"
    and "with_default p ''buildYear'' (validate_optional (validate_float c)) (Some 1980)
           = Inr (buildYear r)"
    and "required p ''centreDistance'' (validate_float c) = Inr (centreDistance r)"
    and "required p ''poiCount'' (validate_float c) = Inr (poiCount r)"
    and "required p ''schoolDistance'' (validate_float c) = Inr (schoolDistance r)"
    and "required p ''clinicDistance'' (validate_float c) = Inr (clinicDistance r)"
    and "required p ''postOfficeDistance'' (validate_float c) = Inr (postOfficeDistance r)"
    and "required p ''kindergartenDistance'' (validate_float c) = Inr (kindergartenDistance r)"
    and "required p ''restaurantDistance'' (validate_float c) = Inr (restaurantDistance r)"
    and "required p ''collegeDistance'' (validate_float c) = Inr (collegeDistance r)"
    and "required p ''pharmacyDistance'' (validate_float c) = Inr (pharmacyDistance r)"
    and "required p ''ownership'' (validate_str c) = Inr (ownership r)"
    and "with_default p ''buildingMaterial'' (validate_optional (validate_str c)) (Some ''brick'')
           = Inr (buildingMaterial r)"
    and "with_default p ''condition'' (validate_optional (validate_str c)) (Some ''unknown'')
           = Inr (condition r)"
    and "with_default p ''hasParkingSpace'' (validate_int c) 0 = Inr (hasParkingSpace r)"
    and "with_default p ''hasBalcony'' (validate_int c) 0 = Inr (hasBalcony r)"
    and "with_default p ''hasElevator'' (validate_int c) 0 = Inr (hasElevator r)"
    and "with_default p ''hasSecurity'' (validate_int c) 0 = Inr (hasSecurity r)"
    and "with_default p ''hasStorageRoom'' (validate_int c) 0 = Inr (hasStorageRoom r)"
  using validate_accepts_iff[THEN iffD1, OF exI, OF assms]
  by - (subst validate_Inr_record[OF assms], simp add: not_isl_projr)+

lemma predict_returns:
  assumes "mode \<in> {''sale'', ''rent''}" and "models st mode = Some model"
    and "fst (predict_method model (DataFrame [dict data])) = Inr (x # xs)"
    and "float x = Inr y"
  shows "fst (predict st mode data) =
           Return [(''mode'', VStr mode), (''predicted_price'', VFloat y)]"
  using assms by (auto simp add: predict_def Let_def getitem0_def split: prod.splits)

lemma predict_conversion_fails:
  assumes "mode \<in> {''sale'', ''rent''}" and "models st mode = Some model"
    and "fst (predict_method model (DataFrame [dict data])) = Inr (x # xs)"
    and "float x = Inl (Exception msg)"
  shows "fst (predict st mode data) = HTTPException 500 msg"
  using assms by (auto simp add: predict_def Let_def getitem0_def split: prod.splits)

lemma optional_None:
  assumes "with_default p k (validate_optional val) (Some d) = Inr None"
  shows "p k = Some JNull"
  using assms
  by (cases "p k"; cases "the (p k)")
     (auto simp add: with_default_def validate_optional_def split: sum.splits)

lemma example_payload_valid:
  "PropertyData_validate no_coercion example_payload = Inr example_record"
  by (simp add: PropertyData_validate_def Let_def example_payload_def example_record_def
    required_def with_default_def validate_str_def validate_float_def errors_of_def)

lemma dict_floor: "map_of (dict r) ''floor'' = Some (opt_float (floor' r))"
  by (simp add: dict_def)


lemma unchecked_payload_valid:
  "PropertyData_validate no_coercion unchecked_payload = Inr unchecked_record"
  by (simp add: PropertyData_validate_def Let_def unchecked_payload_def example_payload_def
    unchecked_record_def example_record_def required_def with_default_def validate_str_def
    validate_float_def validate_int_def validate_optional_def errors_of_def)

subsection \<open>The prediction endpoint\<close>

text \<open>
  C1. When \<open>mode\<close> is \<open>sale\<close> or \<open>rent\<close> and the model store holds a pipeline for it,
  \<open>predict\<close> builds a table of one row whose columns are exactly the declared field
  names and whose cells are the record's values, and invokes the pipeline once on it: the
  state it leaves is the old one with the pipeline as that single invocation left it. When
  the invocation returns an array whose first element \<open>x\<close> converts, \<open>float(x) = y\<close>, the
  call returns the response with \<open>mode\<close> echoed and \<open>predicted_price = y\<close>; a float
  converts to itself and an integer below \<open>2^53\<close> in magnitude to its own value.
\<close>

theorem predict_success:
  assumes "mode \<in> {''sale'', ''rent''}" and "models st mode = Some model"
  shows "rows (DataFrame [dict data]) = [map snd (dict data)]
       \<and> columns (DataFrame [dict data]) = field_names
       \<and> snd (predict st mode data) =
           st\<lparr>models := (models st)(mode \<mapsto> snd (predict_method model (DataFrame [dict data])))\<rparr>
       \<and> (\<forall>x xs y. fst (predict_method model (DataFrame [dict data])) = Inr (x # xs) \<longrightarrow>
             float x = Inr y \<longrightarrow>
             fst (predict st mode data) =
               Return [(''mode'', VStr mode), (''predicted_price'', VFloat y)])
       \<and> (\<forall>v xs. fst (predict_method model (DataFrame [dict data])) = Inr (PyFloat v # xs) \<longrightarrow>
             fst (predict st mode data) =
               Return [(''mode'', VStr mode), (''predicted_price'', VFloat v)])
       \<and> (\<forall>n xs. fst (predict_method model (DataFrame [dict data])) = Inr (PyInt n # xs) \<longrightarrow>
             \<bar>n\<bar> < 2 ^ 53 \<longrightarrow>
             fst (predict st mode data) =
               Return [(''mode'', VStr mode), (''predicted_price'', VFloat (real_of_int n))])"
proof -
  have d: "distinct (map fst (dict data))" by (simp add: dict_keys dist_fn)
  have "rows (DataFrame [dict data]) = [map snd (dict data)]"
    by (simp add: DataFrame_single[OF d])
  moreover have "columns (DataFrame [dict data]) = field_names"
    by (simp add: DataFrame_single[OF d] dict_keys)
  moreover note predict_state[OF assms, of data]
  moreover have r: "fst (predict st mode data) =
      Return [(''mode'', VStr mode), (''predicted_price'', VFloat y)]"
    if "fst (predict_method model (DataFrame [dict data])) = Inr (x # xs)" "float x = Inr y"
    for x xs y
    using assms that by (rule predict_returns)
  moreover have "fst (predict st mode data) =
      Return [(''mode'', VStr mode), (''predicted_price'', VFloat v)]"
    if "fst (predict_method model (DataFrame [dict data])) = Inr (PyFloat v # xs)" for v xs
    using r[OF that] by simp
  moreover have "fst (predict st mode data) =
      Return [(''mode'', VStr mode), (''predicted_price'', VFloat (real_of_int n))]"
    if "fst (predict_method model (DataFrame [dict data])) = Inr (PyInt n # xs)"
      "\<bar>n\<bar> < 2 ^ 53" for n xs
    using r[OF that(1)] that(2) by (simp add: int_to_double_exact)
  ultimately show ?thesis by blast
qed

theorem predict_success_witness:
  "''sale'' \<in> {''sale'', ''rent''}
   \<and> models sale_only_state ''sale'' = Some (const_pipeline 650000)
   \<and> columns (DataFrame [dict example_record]) = field_names
   \<and> predict sale_only_state ''sale'' example_record =
       (Return [(''mode'', VStr ''sale''), (''predicted_price'', VFloat 650000)],
        sale_only_state)
   \<and> models int_rent_state ''rent'' = Some (int_pipeline 2500)
   \<and> predict int_rent_state ''rent'' example_record =
       (Return [(''mode'', VStr ''rent''), (''predicted_price'', VFloat 2500)],
        int_rent_state)"
proof -
  have h1: "''sale'' \<in> {''sale'', ''rent''}" by simp
  have h2: "models sale_only_state ''sale'' = Some (const_pipeline 650000)"
    by (simp add: sale_only_state_def)
  have i: "sale_only_state\<lparr>models := (models sale_only_state)(''sale'' \<mapsto> const_pipeline 650000)\<rparr>
             = sale_only_state"
    by (simp add: sale_only_state_def)
  have k1: "''rent'' \<in> {''sale'', ''rent''}" by simp
  have k2: "models int_rent_state ''rent'' = Some (int_pipeline 2500)"
    by (simp add: int_rent_state_def)
  have j: "int_rent_state\<lparr>models := (models int_rent_state)(''rent'' \<mapsto> int_pipeline 2500)\<rparr>
             = int_rent_state"
    by (simp add: int_rent_state_def)
  have a: "predict sale_only_state ''sale'' example_record =
       (Return [(''mode'', VStr ''sale''), (''predicted_price'', VFloat 650000)],
        sale_only_state)"
    using predict_success[OF h1 h2, of example_record] i by (simp add: prod_eq_iff)
  have b: "predict int_rent_state ''rent'' example_record =
       (Return [(''mode'', VStr ''rent''), (''predicted_price'', VFloat 2500)],
        int_rent_state)"
    using predict_success[OF k1 k2, of example_record] j by (simp add: prod_eq_iff)
  have c: "columns (DataFrame [dict example_record]) = field_names"
    using predict_success[OF h1 h2, of example_record] by blast
  from h1 h2 c a k2 b show ?thesis by (intro conjI)
qed

text \<open>
  An integer too large for a double does not convert: \<open>float\<close> raises inside the
  \<^verbatim>\<open>try\<close> block and the call ends in status 500.
\<close>

lemma predict_overflow:
  "fst (predict huge_rent_state ''rent'' example_record) =
     HTTPException 500 ''int too large to convert to float''"
proof -
  have k: "''rent'' \<in> {''sale'', ''rent''}" by simp
  have f: "float (PyInt huge) = Inl (Exception ''int too large to convert to float'')"
    by (simp add: int_to_double_overflow)
  have m: "models huge_rent_state ''rent'' = Some (int_pipeline huge)"
    by (simp add: huge_rent_state_def)
  have p: "fst (predict_method (int_pipeline huge) (DataFrame [dict example_record]))
      = Inr [PyInt huge]"
    by simp
  show ?thesis by (rule predict_conversion_fails[OF k m p f])
qed

text \<open>
  C2. A mode other than \<open>sale\<close> and \<open>rent\<close> ends in the invalid-mode error, status 400,
  whatever the model store holds, and leaves the state as it was.
\<close>

theorem predict_invalid_mode:
  assumes "mode \<noteq> ''sale''" and "mode \<noteq> ''rent''"
  shows "predict st mode data =
           (HTTPException 400 (''Mode must be 'sale' or 'rent'' @ [CHR 0x27]), st)"
  using assms by (simp add: predict_def)

theorem predict_invalid_mode_witness:
  "''boat'' \<noteq> ''sale'' \<and> ''boat'' \<noteq> ''rent''
   \<and> fst (predict initial_state ''boat'' example_record) =
       HTTPException 400 (''Mode must be 'sale' or 'rent'' @ [CHR 0x27])
   \<and> fst (predict sale_only_state ''boat'' example_record) =
       HTTPException 400 (''Mode must be 'sale' or 'rent'' @ [CHR 0x27])
   \<and> fst (predict full_state ''boat'' example_record) =
       HTTPException 400 (''Mode must be 'sale' or 'rent'' @ [CHR 0x27])"
proof -
  have h1: "''boat'' \<noteq> ''sale''" and h2: "''boat'' \<noteq> ''rent''" by simp_all
  from predict_invalid_mode[OF h1 h2, of initial_state example_record]
    predict_invalid_mode[OF h1 h2, of sale_only_state example_record]
    predict_invalid_mode[OF h1 h2, of full_state example_record]
  show ?thesis by simp
qed

text \<open>
  C3. For \<open>sale\<close> or \<open>rent\<close> without an entry in the model store, the call ends in the
  model-unavailable error, status 500 with the mode in its detail; this is not an error of
  status 400.
\<close>

theorem predict_model_unavailable:
  assumes "mode \<in> {''sale'', ''rent''}" and "models st mode = None"
  shows "predict st mode data = (HTTPException 500 (''Model for '' @ mode @ '' not loaded''), st)
       \<and> (\<forall>detail. fst (predict st mode data) \<noteq> HTTPException 400 detail)"
  using assms by (auto simp add: predict_def)

theorem predict_model_unavailable_witness:
  "''rent'' \<in> {''sale'', ''rent''} \<and> models sale_only_state ''rent'' = None
   \<and> predict sale_only_state ''rent'' example_record =
       (HTTPException 500 ''Model for rent not loaded'', sale_only_state)"
proof -
  have h1: "''rent'' \<in> {''sale'', ''rent''}" by simp
  have h2: "models sale_only_state ''rent'' = None" by (simp add: sale_only_state_def)
  from predict_model_unavailable[OF h1 h2, of example_record] h1 h2 show ?thesis by simp
qed

text \<open>
  C4. When the invocation of a loaded pipeline raises an exception (an instance of
  \<^verbatim>\<open>Exception\<close>), the call ends in an error of status 500 whose detail is the
  exception's message, unchanged.
\<close>

theorem predict_inference_failure:
  assumes "mode \<in> {''sale'', ''rent''}" and "models st mode = Some model"
    and "fst (predict_method model (DataFrame [dict data])) = Inl (Exception msg)"
  shows "fst (predict st mode data) = HTTPException 500 msg"
  using assms by (auto simp add: predict_def Let_def split: prod.splits)

theorem predict_inference_failure_witness:
  "''rent'' \<in> {''sale'', ''rent''}
   \<and> models full_state ''rent'' = Some (failing_pipeline ''Input X contains NaN.'')
   \<and> fst (predict full_state ''rent'' example_record) =
       HTTPException 500 ''Input X contains NaN.''"
proof -
  have h1: "''rent'' \<in> {''sale'', ''rent''}" by simp
  have h2: "models full_state ''rent'' = Some (failing_pipeline ''Input X contains NaN.'')"
    by (simp add: full_state_def)
  have h3: "fst (predict_method (failing_pipeline ''Input X contains NaN.'')
                  (DataFrame [dict example_record])) = Inl (Exception ''Input X contains NaN.'')"
    by simp
  from predict_inference_failure[OF h1 h2 h3] h1 h2 show ?thesis by simp
qed

text \<open>
  Nothing that is an instance of \<^verbatim>\<open>Exception\<close> leaves \<open>predict\<close> uncaught, wherever in the
  \<^verbatim>\<open>try\<close> block it was raised.
\<close>

lemma predict_catches_Exception: "fst (predict st mode data) \<noteq> Uncaught (Exception m)"
  by (auto simp add: predict_def Let_def
      split: prod.splits sum.splits option.splits raised.splits)

text \<open>
  C9. Against a model store whose pipelines no invocation changes, a call of \<open>predict\<close>
  leaves the state as it found it, so the same request gives the same result (the same
  response or the same error) before and after any other request.
\<close>

theorem predict_deterministic:
  assumes "immutable_store st"
  shows "snd (predict st mode' data') = st
       \<and> predict (snd (predict st mode' data')) mode data = predict st mode data"
proof -
  have "snd (predict st mode' data') = st"
  proof (cases "mode' \<in> {''sale'', ''rent''} \<and> models st mode' \<noteq> None")
    case True
    then obtain model where m: "models st mode' = Some model" by auto
    with assms have "snd (predict_method model (DataFrame [dict data'])) = model"
      by (simp add: immutable_store_def immutable_def)
    with True m have "snd (predict st mode' data') = st\<lparr>models := (models st)(mode' \<mapsto> model)\<rparr>"
      using predict_state[of mode' st model data'] by simp
    also have "\<dots> = st" using m by (simp add: map_upd_triv)
    finally show ?thesis .
  next
    case False
    then show ?thesis using predict_state_unloaded[of mode' st data'] by blast
  qed
  then show ?thesis by simp
qed

theorem predict_deterministic_witness:
  "immutable_store full_state
   \<and> predict (snd (predict full_state ''rent'' example_record)) ''sale'' example_record =
       predict full_state ''sale'' example_record
   \<and> fst (predict (snd (predict full_state ''sale'' example_record)) ''sale'' example_record) =
       Return [(''mode'', VStr ''sale''), (''predicted_price'', VFloat 650000)]"
proof -
  have h: "immutable_store full_state"
    by (auto simp add: immutable_store_def immutable_def full_state_def split: if_splits)
  have "fst (predict full_state ''sale'' example_record) =
       Return [(''mode'', VStr ''sale''), (''predicted_price'', VFloat 650000)]"
    by (simp add: predict_def full_state_def Let_def getitem0_def)
  with predict_deterministic[OF h, of "''rent''" example_record "''sale''" example_record]
    predict_deterministic[OF h, of "''sale''" example_record "''sale''" example_record] h
  show ?thesis by simp
qed

subsection \<open>Loading the models\<close>

text \<open>
  C6. Started on the empty model store, with every artifact file that exists loadable,
  \<open>load_models\<close> completes, and the store then has an entry for \<open>sale\<close> exactly when the
  sale file exists and an entry for \<open>rent\<close> exactly when the rent file exists, each entry
  being the pipeline of its file; no other key is added. A missing file for one mode
  leaves the other mode's loading as it is.
\<close>

theorem load_models_per_mode:
  assumes "\<forall>path \<in> {sale_path, rent_path}. \<forall>e. fs path \<noteq> Some (Unloadable e)"
  shows "\<exists>st. load_models fs initial_state = (None, st)
     \<and> (''sale'' \<in> dom (models st) \<longleftrightarrow> path_exists fs sale_path)
     \<and> (''rent'' \<in> dom (models st) \<longleftrightarrow> path_exists fs rent_path)
     \<and> dom (models st) \<subseteq> {''sale'', ''rent''}
     \<and> (\<forall>m. fs sale_path = Some (Pickle m) \<longrightarrow> models st ''sale'' = Some m)
     \<and> (\<forall>m. fs rent_path = Some (Pickle m) \<longrightarrow> models st ''rent'' = Some m)"
proof -
  have s: "fs sale_path = None \<or> (\<exists>m. fs sale_path = Some (Pickle m))"
    using assms by (cases "fs sale_path") (auto intro: fs_entry.exhaust)
  have r: "fs rent_path = None \<or> (\<exists>m. fs rent_path = Some (Pickle m))"
    using assms by (cases "fs rent_path") (auto intro: fs_entry.exhaust)
  from s r show ?thesis
    by (auto simp add: load_models_def path_exists_def joblib_load_def initial_state_def)
qed

theorem load_models_per_mode_witness:
  "\<not> path_exists rent_only_fs sale_path \<and> path_exists rent_only_fs rent_path
   \<and> (\<exists>st. load_models rent_only_fs initial_state = (None, st)
         \<and> models st ''sale'' = None \<and> models st ''rent'' = Some (const_pipeline 2500))"
proof -
  have h: "\<forall>path \<in> {sale_path, rent_path}. \<forall>e. rent_only_fs path \<noteq> Some (Unloadable e)"
    by (simp add: rent_only_fs_def sale_path_def rent_path_def)
  have e: "\<not> path_exists rent_only_fs sale_path" "path_exists rent_only_fs rent_path"
    "rent_only_fs rent_path = Some (Pickle (const_pipeline 2500))"
    by (simp_all add: rent_only_fs_def sale_path_def rent_path_def path_exists_def)
  from load_models_per_mode[OF h] obtain st where
    st: "load_models rent_only_fs initial_state = (None, st)"
      "''sale'' \<in> dom (models st) \<longleftrightarrow> path_exists rent_only_fs sale_path"
      "\<forall>m. rent_only_fs rent_path = Some (Pickle m) \<longrightarrow> models st ''rent'' = Some m"
    by blast
  from st(2) e(1) have "models st ''sale'' = None" by (simp add: domIff)
  moreover from st(3) e(3) have "models st ''rent'' = Some (const_pipeline 2500)" by blast
  ultimately show ?thesis using e(1,2) st(1) by blast
qed

subsection \<open>Validation of the request body\<close>

text \<open>
  C5. A body that supplies every required field with a value of its declared primitive
  type and omits every optional field validates, and the record has \<open>floor = 1.0\<close>,
  \<open>floorCount = 1.0\<close>, \<open>buildYear = 1980.0\<close>, \<open>buildingMaterial = "brick"\<close>,
  \<open>condition = "unknown"\<close> and the five amenity flags 0.
\<close>

theorem defaults_applied:
  assumes "required_well_typed p" and "omits_optional p"
  shows "\<exists>r. PropertyData_validate c p = Inr r
           \<and> floor' r = Some 1 \<and> floorCount r = Some 1 \<and> buildYear r = Some 1980
           \<and> buildingMaterial r = Some ''brick'' \<and> condition r = Some ''unknown''
           \<and> hasParkingSpace r = 0 \<and> hasBalcony r = 0 \<and> hasElevator r = 0
           \<and> hasSecurity r = 0 \<and> hasStorageRoom r = 0"
proof -
  from assms(2) have none:
    "p ''floor'' = None" "p ''floorCount'' = None" "p ''buildYear'' = None"
    "p ''buildingMaterial'' = None" "p ''condition'' = None"
    "p ''hasParkingSpace'' = None" "p ''hasBalcony'' = None" "p ''hasElevator'' = None"
    "p ''hasSecurity'' = None" "p ''hasStorageRoom'' = None"
    by (simp_all add: omits_optional_def optional_float_fields_def optional_str_fields_def
        flag_fields_def)
  from assms(1) none have "well_typed p"
    by (simp add: well_typed_def optional_float_fields_def optional_str_fields_def
        flag_fields_def omitted_or_def)
  then obtain r where r: "PropertyData_validate c p = Inr r"
    using well_typed_accepted by blast
  note f = validate_fields[OF r]
  from f(5-7,18-24) none have
    "floor' r = Some 1" "floorCount r = Some 1" "buildYear r = Some 1980"
    "buildingMaterial r = Some ''brick''" "condition r = Some ''unknown''"
    "hasParkingSpace r = 0" "hasBalcony r = 0" "hasElevator r = 0"
    "hasSecurity r = 0" "hasStorageRoom r = 0"
    by (simp_all add: omitted_default)
  with r show ?thesis by blast
qed

theorem defaults_applied_witness:
  "required_well_typed example_payload \<and> omits_optional example_payload
   \<and> (\<exists>r. PropertyData_validate no_coercion example_payload = Inr r
           \<and> floor' r = Some 1 \<and> floorCount r = Some 1 \<and> buildYear r = Some 1980
           \<and> buildingMaterial r = Some ''brick'' \<and> condition r = Some ''unknown''
           \<and> hasParkingSpace r = 0 \<and> hasBalcony r = 0 \<and> hasElevator r = 0
           \<and> hasSecurity r = 0 \<and> hasStorageRoom r = 0)"
proof -
  have h1: "required_well_typed example_payload"
    by (simp add: required_well_typed_def required_str_fields_def required_float_fields_def
        supplied_def example_payload_def)
  have h2: "omits_optional example_payload"
    by (simp add: omits_optional_def optional_float_fields_def optional_str_fields_def
        flag_fields_def example_payload_def)
  from h1 h2 defaults_applied[OF h1 h2, of no_coercion] show ?thesis by simp
qed

text \<open>
  C10. Keys of the body that \<open>PropertyData\<close> does not declare play no part: a body that
  agrees with a valid one on the declared fields validates to the same record, and the
  table built from a record has exactly the declared field names as its columns.
\<close>

theorem extra_fields_ignored:
  assumes "\<forall>k \<in> set field_names. p' k = p k" and "PropertyData_validate c p = Inr r"
  shows "PropertyData_validate c p' = Inr r \<and> columns (DataFrame [dict r]) = field_names"
proof -
  from assms(1) have eqs:
    "p' ''city'' = p ''city''" "p' ''type'' = p ''type''"
    "p' ''squareMeters'' = p ''squareMeters''" "p' ''rooms'' = p ''rooms''"
    "p' ''floor'' = p ''floor''" "p' ''floorCount'' = p ''floorCount''"
    "p' ''buildYear'' = p ''buildYear''" "p' ''centreDistance'' = p ''centreDistance''"
    "p' ''poiCount'' = p ''poiCount''" "p' ''schoolDistance'' = p ''schoolDistance''"
    "p' ''clinicDistance'' = p ''clinicDistance''"
    "p' ''postOfficeDistance'' = p ''postOfficeDistance''"
    "p' ''kindergartenDistance'' = p ''kindergartenDistance''"
    "p' ''restaurantDistance'' = p ''restaurantDistance''"
    "p' ''collegeDistance'' = p ''collegeDistance''"
    "p' ''pharmacyDistance'' = p ''pharmacyDistance''" "p' ''ownership'' = p ''ownership''"
    "p' ''buildingMaterial'' = p ''buildingMaterial''" "p' ''condition'' = p ''condition''"
    "p' ''hasParkingSpace'' = p ''hasParkingSpace''" "p' ''hasBalcony'' = p ''hasBalcony''"
    "p' ''hasElevator'' = p ''hasElevator''" "p' ''hasSecurity'' = p ''hasSecurity''"
    "p' ''hasStorageRoom'' = p ''hasStorageRoom''"
    by (simp_all add: field_names_def)
  have "PropertyData_validate c p' = PropertyData_validate c p"
    by (simp only: PropertyData_validate_def required_def with_default_def eqs)
  moreover have "distinct (map fst (dict r))" by (simp add: dict_keys dist_fn)
  then have "columns (DataFrame [dict r]) = field_names"
    by (simp add: DataFrame_single dict_keys)
  ultimately show ?thesis using assms(2) by simp
qed

theorem extra_fields_ignored_witness:
  "extra_payload ''swimmingPool'' = Some (JBool True)
   \<and> ''swimmingPool'' \<notin> set field_names
   \<and> PropertyData_validate no_coercion extra_payload = Inr example_record
   \<and> columns (DataFrame [dict example_record]) = field_names"
proof -
  have h1: "\<forall>k \<in> set field_names. extra_payload k = example_payload k"
    by (simp add: field_names_def extra_payload_def)
  have e: "extra_payload ''swimmingPool'' = Some (JBool True)"
    "''swimmingPool'' \<notin> set field_names"
    by (simp_all add: extra_payload_def field_names_def)
  from extra_fields_ignored[OF h1 example_payload_valid] e show ?thesis by simp
qed



text \<open>
  C8, as the code has it. In a validated record every declared field is present; a field
  is null only if it is one of the five \<^verbatim>\<open>Optional\<close> fields and the body gave an explicit
  null for it; each amenity flag holds an integer, the body's own when it gave one and 0
  when it gave none.
\<close>

theorem validated_record_fields:
  assumes "PropertyData_validate c p = Inr r"
  shows "map fst (dict r) = field_names
       \<and> (\<forall>k. map_of (dict r) k = Some VNone \<longrightarrow>
             k \<in> set (optional_float_fields @ optional_str_fields) \<and> p k = Some JNull)
       \<and> (\<forall>k \<in> set flag_fields. \<exists>n. map_of (dict r) k = Some (VInt n)
             \<and> (p k = None \<longrightarrow> n = 0) \<and> (\<forall>m. p k = Some (JInt m) \<longrightarrow> n = m))"
proof -
  note f = validate_fields[OF assms]
  have nn: "floor' r = None \<Longrightarrow> p ''floor'' = Some JNull"
    "floorCount r = None \<Longrightarrow> p ''floorCount'' = Some JNull"
    "buildYear r = None \<Longrightarrow> p ''buildYear'' = Some JNull"
    "buildingMaterial r = None \<Longrightarrow> p ''buildingMaterial'' = Some JNull"
    "condition r = None \<Longrightarrow> p ''condition'' = Some JNull"
    using f(5-7,18,19) by (auto intro: optional_None)
  have null: "k \<in> set (optional_float_fields @ optional_str_fields) \<and> p k = Some JNull"
    if "map_of (dict r) k = Some VNone" for k
  proof -
    from that have "(k, VNone) \<in> set (dict r)" by (rule map_of_SomeD)
    then have "k = ''floor'' \<and> floor' r = None \<or> k = ''floorCount'' \<and> floorCount r = None
        \<or> k = ''buildYear'' \<and> buildYear r = None
        \<or> k = ''buildingMaterial'' \<and> buildingMaterial r = None
        \<or> k = ''condition'' \<and> condition r = None"
      by (simp add: dict_def opt_float_def opt_str_def split: option.splits)
    with nn show ?thesis
      by (auto simp add: optional_float_fields_def optional_str_fields_def)
  qed
  have flag: "(p k = None \<longrightarrow> n = 0) \<and> (\<forall>m. p k = Some (JInt m) \<longrightarrow> n = m)"
    if "with_default p k (validate_int c) 0 = Inr n" for k n
    using that by (auto simp add: with_default_def validate_int_def)
  have flags: "\<forall>k \<in> set flag_fields. \<exists>n. map_of (dict r) k = Some (VInt n)
             \<and> (p k = None \<longrightarrow> n = 0) \<and> (\<forall>m. p k = Some (JInt m) \<longrightarrow> n = m)"
    using flag[OF f(20)] flag[OF f(21)] flag[OF f(22)] flag[OF f(23)] flag[OF f(24)]
    by (simp add: flag_fields_def dict_def)
  from dict_keys null flags show ?thesis by blast
qed

theorem validated_record_fields_witness:
  "PropertyData_validate no_coercion unchecked_payload = Inr unchecked_record
   \<and> map fst (dict unchecked_record) = field_names
   \<and> unchecked_payload ''hasParkingSpace'' = Some (JInt 7)
   \<and> map_of (dict unchecked_record) ''hasParkingSpace'' = Some (VInt 7)
   \<and> unchecked_payload ''hasBalcony'' = None
   \<and> map_of (dict unchecked_record) ''hasBalcony'' = Some (VInt 0)"
proof -
  have e: "unchecked_payload ''hasParkingSpace'' = Some (JInt 7)"
    "unchecked_payload ''hasBalcony'' = None"
    by (simp_all add: unchecked_payload_def example_payload_def)
  have k: "''hasParkingSpace'' \<in> set flag_fields" "''hasBalcony'' \<in> set flag_fields"
    by (simp_all add: flag_fields_def)
  note t = validated_record_fields[OF unchecked_payload_valid]
  note fl = conjunct2[OF conjunct2[OF t]]
  from bspec[OF fl k(1)] e(1)
  have a: "map_of (dict unchecked_record) ''hasParkingSpace'' = Some (VInt 7)"
    by simp
  from bspec[OF fl k(2)] e(2)
  have b: "map_of (dict unchecked_record) ''hasBalcony'' = Some (VInt 0)"
    by simp
  note c = conjunct1[OF t]
  from unchecked_payload_valid c e(1) a e(2) b show ?thesis
    by (intro conjI)
qed

text \<open>
  C8 as the specification words it fails: the body of the example with \<open>floor\<close> null and
  \<open>hasParkingSpace\<close> 7 validates, and its record has the flag 7 and no floor.
\<close>

theorem flags_and_nulls_counterexample:
  "PropertyData_validate no_coercion unchecked_payload = Inr unchecked_record
   \<and> hasParkingSpace unchecked_record \<notin> {0, 1}
   \<and> floor' unchecked_record = None
   \<and> map_of (dict unchecked_record) ''floor'' = Some VNone"
proof -
  have a: "hasParkingSpace unchecked_record \<notin> {0, 1}"
    by (simp add: unchecked_record_def)
  have b: "floor' unchecked_record = None"
    by (simp add: unchecked_record_def)
  have c: "map_of (dict unchecked_record) ''floor'' = Some VNone"
    by (simp add: dict_floor b opt_float_def)
  from unchecked_payload_valid a b c show ?thesis by (intro conjI)
qed

end
